theory Spec2Isabelle
  imports Main "HOL-Library.AList"
begin

section \<open>Python values\<close>

text \<open>
  A Python \<open>bytes\<close> object is a list of bytes; a HOL \<open>char\<close> is one byte.
  A Python \<open>str\<close> is represented by its UTF-8 encoding: \<open>s.encode()\<close> and
  \<open>bytes(s, 'utf-8')\<close> are then the identity on the representation, \<open>len(s)\<close>
  counts the bytes that are not continuation bytes, and \<open>b.decode('utf-8')\<close> succeeds
  exactly on well-formed UTF-8. ASCII characters such as \<open>?\<close>, \<open>#\<close>, \<open>&\<close> and
  \<open>=\<close> never occur inside a multi-byte sequence, so searching and splitting on them
  agrees with Python's code-point operations.
\<close>

type_synonym bytes = "char list"

datatype error =
    NoTokenError string
  | NoPrivateKeyError string
  | ValueError string
  | RuntimeError string
  | KeyError string
  | TypeError string
  | UnicodeDecodeError
  | BinasciiError string
  | KeyboardInterruptError

text \<open>A call either returns or raises; the state it leaves behind is returned beside it.\<close>

datatype 'a outcome = Returned 'a | Raised error

definition byte :: "char \<Rightarrow> nat" where
  "byte c = of_char c"

definition utf8_cont :: "char \<Rightarrow> bool" where
  "utf8_cont c = (128 \<le> byte c \<and> byte c < 192)"


definition in_range :: "nat \<Rightarrow> nat \<Rightarrow> char \<Rightarrow> bool" where
  "in_range lo hi c = (lo \<le> byte c \<and> byte c \<le> hi)"

fun valid_utf8 :: "bytes \<Rightarrow> bool" where
  "valid_utf8 [] = True"
| "valid_utf8 (b # bs) =
     (if byte b < 128 then valid_utf8 bs
      else if in_range 194 223 b then
        (case bs of c1 # r \<Rightarrow> utf8_cont c1 \<and> valid_utf8 r | _ \<Rightarrow> False)
      else if in_range 224 239 b then
        (case bs of
           c1 # c2 # r \<Rightarrow>
             (if byte b = 224 then in_range 160 191 c1
              else if byte b = 237 then in_range 128 159 c1
              else utf8_cont c1) \<and> utf8_cont c2 \<and> valid_utf8 r
         | _ \<Rightarrow> False)
      else if in_range 240 244 b then
        (case bs of
           c1 # c2 # c3 # r \<Rightarrow>
             (if byte b = 240 then in_range 144 191 c1
              else if byte b = 244 then in_range 128 143 c1
              else utf8_cont c1) \<and> utf8_cont c2 \<and> utf8_cont c3 \<and> valid_utf8 r
         | _ \<Rightarrow> False)
      else False)"

definition decode_utf8 :: "bytes \<Rightarrow> error + string" where
  "decode_utf8 b = (if valid_utf8 b then Inr b else Inl UnicodeDecodeError)"

definition encode_utf8 :: "string \<Rightarrow> bytes" where
  "encode_utf8 s = s"

text \<open>
  The values the program stores in dictionaries and serialises as JSON. A dictionary is
  an association list in insertion order; \<open>d[k] = v\<close> is \<open>AList.update\<close> (an existing key
  keeps its place, a new one goes last) and \<open>del d[k]\<close> is \<open>AList.delete\<close>.
\<close>

datatype pyval =
    PNone
  | PBool bool
  | PInt int
  | PStr string
  | PList "pyval list"
  | PDict "(string \<times> pyval) list"

type_synonym pydict = "(string \<times> pyval) list"

definition dict_get :: "pydict \<Rightarrow> string \<Rightarrow> error + pyval" where
  "dict_get d k = (case map_of d k of None \<Rightarrow> Inl (KeyError k) | Some v \<Rightarrow> Inr v)"

definition dict_del :: "string \<Rightarrow> pydict \<Rightarrow> error + pydict" where
  "dict_del k d = (if k \<in> fst ` set d then Inr (AList.delete k d) else Inl (KeyError k))"


section \<open>base64 (the \<open>binascii\<close> and \<open>base64\<close> modules)\<close>

definition b64_alphabet :: string where
  "b64_alphabet = ''ABCDEFGHIJKLMNOPQRSTUVWXYZabcdefghijklmnopqrstuvwxyz0123456789+/''"

definition table_b2a :: "nat \<Rightarrow> char" where
  "table_b2a i = b64_alphabet ! i"

primrec index_of :: "'a \<Rightarrow> 'a list \<Rightarrow> nat option" where
  "index_of x [] = None"
| "index_of x (y # ys) =
     (if x = y then Some 0 else map_option Suc (index_of x ys))"

definition table_a2b :: "char \<Rightarrow> nat option" where
  "table_a2b c = index_of c b64_alphabet"

text \<open>
  \<open>binascii.b2a_base64(s, newline=False)\<close>: three bytes become four characters, and a
  final group of one or two bytes is padded with \<open>=\<close>.
\<close>

fun b2a_base64 :: "bytes \<Rightarrow> bytes" where
  "b2a_base64 (a # b # c # rest) =
     table_b2a (byte a div 4)
     # table_b2a ((byte a mod 4) * 16 + byte b div 16)
     # table_b2a ((byte b mod 16) * 4 + byte c div 64)
     # table_b2a (byte c mod 64)
     # b2a_base64 rest"
| "b2a_base64 [a, b] =
     [table_b2a (byte a div 4),
      table_b2a ((byte a mod 4) * 16 + byte b div 16),
      table_b2a ((byte b mod 16) * 4),
      CHR ''='']"
| "b2a_base64 [a] =
     [table_b2a (byte a div 4), table_b2a ((byte a mod 4) * 16), CHR ''='', CHR ''='']"
| "b2a_base64 [] = []"

text \<open>
  \<open>binascii.a2b_base64(s)\<close> in its default, non-strict mode, as CPython's loop runs:
  \<open>quad_pos\<close> is the position in the current group of four, \<open>leftchar\<close> holds the bits
  not yet written, \<open>pads\<close> counts the padding characters seen since the last data
  character. Characters outside the alphabet are skipped; a padding sequence that
  completes a group ends the decoding; data left over at the end is an error.
\<close>

fun a2b_loop :: "bytes \<Rightarrow> nat \<Rightarrow> nat \<Rightarrow> nat \<Rightarrow> bytes \<Rightarrow> error + bytes" where
  "a2b_loop [] quad_pos leftchar pads bin =
     (if quad_pos = 0 then Inr bin
      else if quad_pos = 1 then
        Inl (BinasciiError ''Invalid base64-encoded string: number of data characters cannot be 1 more than a multiple of 4'')
      else Inl (BinasciiError ''Incorrect padding''))"
| "a2b_loop (this_ch # rest) quad_pos leftchar pads bin =
     (if this_ch = CHR ''='' then
        (if quad_pos \<ge> 2 \<and> quad_pos + (pads + 1) \<ge> 4 then Inr bin
         else a2b_loop rest quad_pos leftchar (if quad_pos \<ge> 2 then pads + 1 else pads) bin)
      else
        (case table_a2b this_ch of
           None \<Rightarrow> a2b_loop rest quad_pos leftchar pads bin
         | Some v \<Rightarrow>
             (if quad_pos = 0 then a2b_loop rest 1 v 0 bin
              else if quad_pos = 1 then
                a2b_loop rest 2 (v mod 16) 0
                  (bin @ [char_of ((leftchar * 4 + v div 16) mod 256)])
              else if quad_pos = 2 then
                a2b_loop rest 3 (v mod 4) 0
                  (bin @ [char_of ((leftchar * 16 + v div 4) mod 256)])
              else
                a2b_loop rest 0 0 0
                  (bin @ [char_of ((leftchar * 64 + v) mod 256)]))))"

definition a2b_base64 :: "bytes \<Rightarrow> error + bytes" where
  "a2b_base64 s = a2b_loop s 0 0 0 []"

definition translate :: "char \<Rightarrow> char \<Rightarrow> char \<Rightarrow> char \<Rightarrow> bytes \<Rightarrow> bytes" where
  "translate a a' b b' s = map (\<lambda>c. if c = a then a' else if c = b then b' else c) s"

definition urlsafe_b64encode :: "bytes \<Rightarrow> bytes" where
  "urlsafe_b64encode s = translate (CHR ''+'') (CHR ''-'') (CHR ''/'') (CHR ''_'') (b2a_base64 s)"

definition urlsafe_b64decode :: "bytes \<Rightarrow> error + bytes" where
  "urlsafe_b64decode s = a2b_base64 (translate (CHR ''-'') (CHR ''+'') (CHR ''_'') (CHR ''/'') s)"

section \<open>External collaborators\<close>

text \<open>
  The libraries the program calls are not part of it: \<open>cryptography\<close> (RSA with OAEP
  padding, AES in CTR mode, PEM encodings), \<open>hashlib\<close>, \<open>json\<close> and the bracketed-host
  check of \<open>urllib.parse\<close>. They are parameters of the model. An RSA key is its modulus
  and exponent. The random bytes of the operating system are a stream the program
  draws from.
\<close>

type_synonym rsa_key = "nat \<times> nat"

record externals =
  rsa_generate :: "bytes \<Rightarrow> rsa_key"
  rsa_public_key :: "rsa_key \<Rightarrow> rsa_key"
  rsa_private_bytes :: "rsa_key \<Rightarrow> bytes \<Rightarrow> bytes"
  rsa_public_bytes :: "rsa_key \<Rightarrow> bytes"
  rsa_oaep_encrypt :: "rsa_key \<Rightarrow> bytes \<Rightarrow> bytes \<Rightarrow> error + bytes"
  rsa_oaep_decrypt :: "rsa_key \<Rightarrow> bytes \<Rightarrow> error + bytes"
  aes_keystream :: "bytes \<Rightarrow> bytes \<Rightarrow> nat \<Rightarrow> char"
  sha256 :: "bytes \<Rightarrow> bytes"
  json_dumps :: "pyval \<Rightarrow> string"
  json_dumps_sorted_indent4 :: "pyval \<Rightarrow> string"
  json_loads :: "bytes \<Rightarrow> error + pyval"
  bracketed_host_ok :: "string \<Rightarrow> bool"
  nfkc_netloc_ok :: "string \<Rightarrow> bool"

type_synonym entropy = "nat \<Rightarrow> char"

definition urandom :: "nat \<Rightarrow> entropy \<Rightarrow> bytes \<times> entropy" where
  "urandom n rnd = (map rnd [0..<n], \<lambda>i. rnd (n + i))"

definition bind_err :: "error + 'a \<Rightarrow> ('a \<Rightarrow> error + 'b) \<Rightarrow> error + 'b" where
  "bind_err m f = (case m of Inl e \<Rightarrow> Inl e | Inr x \<Rightarrow> f x)"

section \<open>The client object and its environment\<close>

record oauth2_client =
  registration :: pydict
  client :: pydict
  session_file_path :: "string option"
  public_key :: "rsa_key option"
  saved_session :: pydict
  token :: "pydict option"
  authurl :: "string option"
  debug :: bool
  verbose :: bool

record file_entry =
  mode :: nat
  content :: bytes

text \<open>
  The environment: a flat file system (every path can be created), the mode a newly
  created file gets (0666 masked by the umask), the number of \<open>notify()\<close> calls on the
  \<open>token_changed\<close> condition, and what was printed on standard error.
\<close>

record world =
  files :: "string \<rightharpoonup> file_entry"
  create_mode :: nat
  notifications :: nat
  stderr :: "string list"
  stderr_isatty :: bool

definition truthy :: "string option \<Rightarrow> bool" where
  "truthy x = (case x of None \<Rightarrow> False | Some s \<Rightarrow> s \<noteq> [])"

definition log :: "oauth2_client \<Rightarrow> string \<Rightarrow> world \<Rightarrow> world" where
  "log self message w =
     (if (verbose self \<or> debug self) \<or> \<not> stderr_isatty w
      then w\<lparr>stderr := stderr w @ [message]\<rparr> else w)"

section \<open>Encoding and encryption helpers\<close>

definition encode_dict :: "externals \<Rightarrow> pyval \<Rightarrow> bytes" where
  "encode_dict ext dict_to_dump =
     (let dump = encode_utf8 (json_dumps ext dict_to_dump) in urlsafe_b64encode dump)"

text \<open>
  \<open>_b64encode\<close> and \<open>_b64decode\<close> take a \<open>bytes\<close> object (\<open>Inr\<close>) or any other value
  (\<open>Inl\<close>), which \<open>bytes(data, 'utf-8')\<close> converts when it is a \<open>str\<close>.
\<close>

definition to_bytes :: "pyval + bytes \<Rightarrow> error + bytes" where
  "to_bytes data =
     (case data of
        Inr b \<Rightarrow> Inr b
      | Inl (PStr s) \<Rightarrow> Inr (encode_utf8 s)
      | Inl _ \<Rightarrow> Inl (TypeError ''encoding without a string argument''))"

definition b64encode :: "pyval + bytes \<Rightarrow> error + bytes" where
  "b64encode data = bind_err (to_bytes data) (\<lambda>b. Inr (urlsafe_b64encode b))"

definition b64encode_str :: "bytes \<Rightarrow> error + string" where
  "b64encode_str data = bind_err (b64encode (Inr data)) decode_utf8"


fun xor_byte :: "char \<Rightarrow> char \<Rightarrow> char" where
  "xor_byte (Char a0 a1 a2 a3 a4 a5 a6 a7) (Char b0 b1 b2 b3 b4 b5 b6 b7) =
     Char (a0 \<noteq> b0) (a1 \<noteq> b1) (a2 \<noteq> b2) (a3 \<noteq> b3) (a4 \<noteq> b4) (a5 \<noteq> b5) (a6 \<noteq> b6) (a7 \<noteq> b7)"

text \<open>
  \<open>Cipher(algorithms.AES(key), modes.CTR(nonce))\<close>: the constructors check the sizes;
  the encryptor and the decryptor are the same function, the exclusive or of the data
  with the key stream.
\<close>

definition aes_ctr_cipher :: "externals \<Rightarrow> bytes \<Rightarrow> bytes \<Rightarrow> error + (bytes \<Rightarrow> bytes)" where
  "aes_ctr_cipher ext key nonce =
     (if length key \<notin> {16, 24, 32} then Inl (ValueError ''Invalid key size for AES.'')
      else if length nonce \<noteq> 16 then Inl (ValueError ''Invalid nonce size for CTR.'')
      else Inr (\<lambda>data. map (\<lambda>(i, b). xor_byte b (aes_keystream ext key nonce i))
                          (enumerate 0 data)))"

definition encrypt ::
  "externals \<Rightarrow> entropy \<Rightarrow> oauth2_client \<Rightarrow> bytes \<Rightarrow> error + (bytes \<times> pydict)" where
  "encrypt ext rnd self data =
     (case public_key self of
        None \<Rightarrow> Inl (RuntimeError ''No public key available'')
      | Some pub \<Rightarrow>
          (let (key, rnd1) = urandom 32 rnd;
               (nonce, rnd2) = urandom 16 rnd1;
               (seed, rnd3) = urandom 32 rnd2
           in bind_err (rsa_oaep_encrypt ext pub seed key) (\<lambda>wrapped.
              bind_err (b64encode_str wrapped) (\<lambda>key_str.
              bind_err (b64encode_str nonce) (\<lambda>nonce_str.
              bind_err (aes_ctr_cipher ext key nonce) (\<lambda>encryptor.
                Inr (encryptor data,
                     [(''algo'', PStr ''AES''),
                      (''mode'', PStr ''CTR''),
                      (''key'', PStr key_str),
                      (''nonce'', PStr nonce_str)])))))))"


section \<open>Writing files\<close>

text \<open>
  \<open>_write_and_rename\<close> as the sequence of file-system states it goes through: after
  \<open>open(filename + ".new", 'wb')\<close> (created empty, or truncated with its mode kept), after
  \<open>os.chmod\<close>, after each byte of the payload has reached the temporary file, and after
  \<open>os.rename\<close>.
\<close>

definition fs_open_wb :: "string \<Rightarrow> world \<Rightarrow> world" where
  "fs_open_wb path w =
     w\<lparr>files := (files w)(path \<mapsto>
          (case files w path of
             None \<Rightarrow> \<lparr>mode = create_mode w, content = []\<rparr>
           | Some f \<Rightarrow> f\<lparr>content := []\<rparr>))\<rparr>"

definition fs_chmod :: "string \<Rightarrow> nat \<Rightarrow> world \<Rightarrow> world" where
  "fs_chmod path m w =
     (case files w path of
        None \<Rightarrow> w
      | Some f \<Rightarrow> w\<lparr>files := (files w)(path \<mapsto> f\<lparr>mode := m\<rparr>)\<rparr>)"

definition fs_set_content :: "string \<Rightarrow> bytes \<Rightarrow> world \<Rightarrow> world" where
  "fs_set_content path b w =
     (case files w path of
        None \<Rightarrow> w
      | Some f \<Rightarrow> w\<lparr>files := (files w)(path \<mapsto> f\<lparr>content := b\<rparr>)\<rparr>)"

definition fs_rename :: "string \<Rightarrow> string \<Rightarrow> world \<Rightarrow> world" where
  "fs_rename src dst w =
     (case files w src of
        None \<Rightarrow> w
      | Some f \<Rightarrow> w\<lparr>files := ((files w)(src := None))(dst \<mapsto> f)\<rparr>)"

definition owner_only :: nat where
  "owner_only = 6 * 64"

definition write_and_rename_trace ::
  "pyval + bytes \<Rightarrow> string \<Rightarrow> world \<Rightarrow> error + world list" where
  "write_and_rename_trace data filename w =
     (let tmp = filename @ ''.new'';
          w1 = fs_open_wb tmp w
      in case to_bytes data of
           Inl e \<Rightarrow> Inl e
         | Inr b \<Rightarrow>
             (let w2 = fs_chmod tmp owner_only w1;
                  writes = map (\<lambda>k. fs_set_content tmp (take k b) w2) [1..<Suc (length b)];
                  w3 = fs_set_content tmp b w2
              in Inr ([w1, w2] @ writes @ [fs_rename tmp filename w3])))"

definition write_and_rename :: "pyval + bytes \<Rightarrow> string \<Rightarrow> world \<Rightarrow> unit outcome \<times> world" where
  "write_and_rename data filename w =
     (case write_and_rename_trace data filename w of
        Inl e \<Rightarrow> (Raised e, fs_open_wb (filename @ ''.new'') w)
      | Inr tr \<Rightarrow> (Returned (), last tr))"

section \<open>Saving the session and refreshing the token\<close>

definition save_session ::
  "externals \<Rightarrow> entropy \<Rightarrow> string option \<Rightarrow> oauth2_client \<Rightarrow> world
     \<Rightarrow> unit outcome \<times> oauth2_client \<times> world" where
  "save_session ext rnd path0 self0 w =
     (let resolved =
            (if path0 = None \<and> truthy (session_file_path self0)
               then Inr (session_file_path self0, self0)
             else if session_file_path self0 = None \<and> truthy path0
               then Inr (path0, self0\<lparr>session_file_path := path0\<rparr>)
             else Inl (ValueError ''No path specified and no default available.''))
      in case resolved of
           Inl e \<Rightarrow> (Raised e, self0, w)
         | Inr (path, self) \<Rightarrow>
             (let data_dict =
                    PDict [(''client'', PDict (client self)),
                           (''registration'', PDict (registration self)),
                           (''tokendata'',
                              (case token self of None \<Rightarrow> PNone | Some t \<Rightarrow> PDict t))]
              in case encrypt ext rnd self (encode_dict ext data_dict) of
                   Inl e \<Rightarrow> (Raised e, self, w)
                 | Inr (data, params) \<Rightarrow>
                     (case b64encode_str data of
                        Inl e \<Rightarrow> (Raised e, self, w)
                      | Inr data_str \<Rightarrow>
                          (let s1 = AList.update ''data'' (PStr data_str) (saved_session self);
                               s2 = AList.update ''cryptoparams'' (PDict params) s1;
                               self1 = self\<lparr>saved_session := s2\<rparr>
                           in case path of
                                None \<Rightarrow>
                                  (Raised (RuntimeError ''No session file named for write.''),
                                   self1, w)
                              | Some p \<Rightarrow>
                                  (let jsondata = json_dumps_sorted_indent4 ext (PDict s2);
                                       s3 = AList.delete ''data'' s2;
                                       s4 = AList.delete ''cryptoparams'' s3;
                                       self2 = self\<lparr>saved_session := s4\<rparr>;
                                       (r, w') = write_and_rename (Inl (PStr jsondata)) p w
                                   in (r, self2, w'))))))"

text \<open>
  \<open>refresh_token\<close>; \<open>response\<close> is what the external OAuth2 session's
  \<open>refresh_token\<close> call returns or raises.
\<close>

definition refresh_token ::
  "externals \<Rightarrow> entropy \<Rightarrow> error + pydict \<Rightarrow> oauth2_client \<Rightarrow> world
     \<Rightarrow> unit outcome \<times> oauth2_client \<times> world" where
  "refresh_token ext rnd response self w =
     (let w1 = log self ''Starting token refresh'' w
      in case dict_get (registration self) ''token_endpoint'' of
           Inl e \<Rightarrow> (Raised e, self, w1)
         | Inr endpoint \<Rightarrow>
             (case response of
                Inl e \<Rightarrow> (Raised e, self, w1)
              | Inr new_token \<Rightarrow>
                  (let w2 = log self ''Token refreshed'' w1;
                       self1 = self\<lparr>token := Some new_token\<rparr>;
                       w3 = w2\<lparr>notifications := notifications w2 + 1\<rparr>
                   in save_session ext rnd None self1 w3)))"

section \<open>Creating the key pair\<close>











section \<open>The socket token server\<close>

text \<open>What a request handler sends on its connection, in order.\<close>

datatype sent = SendResponse nat | SendHeader string string | EndHeaders | WFile bytes

definition token_do_HEAD :: "sent list" where
  "token_do_HEAD = [SendResponse 200, SendHeader ''Content-type'' ''text/plain'', EndHeaders]"

definition token_do_GET :: "oauth2_client \<Rightarrow> unit outcome \<times> sent list" where
  "token_do_GET context =
     (let wire = token_do_HEAD in
      case token context of
        None \<Rightarrow> (Raised (NoTokenError ''Cannot retreive access token''), wire)
      | Some tok \<Rightarrow>
          if tok = [] \<or> map_of tok ''access_token'' = None
          then (Raised (NoTokenError ''Cannot retreive access token''), wire)
          else
            (case dict_get tok ''access_token'' of
               Inl e \<Rightarrow> (Raised e, wire)
             | Inr response \<Rightarrow>
                 (case to_bytes (Inl response) of
                    Inl e \<Rightarrow> (Raised e, wire)
                  | Inr b \<Rightarrow> (Returned (), wire @ [WFile b]))))"

definition error_status_sent :: "sent list \<Rightarrow> bool" where
  "error_status_sent wire =
     list_ex (\<lambda>x. case x of SendResponse n \<Rightarrow> 400 \<le> n | _ \<Rightarrow> False) wire"

section \<open>PKCE\<close>

definition rstrip :: "char \<Rightarrow> bytes \<Rightarrow> bytes" where
  "rstrip c s = rev (dropWhile (\<lambda>x. x = c) (rev s))"

definition token_urlsafe :: "nat \<Rightarrow> entropy \<Rightarrow> error + string" where
  "token_urlsafe nbytes rnd =
     (let tok = fst (urandom nbytes rnd) in
      decode_utf8 (rstrip (CHR ''='') (urlsafe_b64encode tok)))"

definition generate_pkce_context :: "externals \<Rightarrow> entropy \<Rightarrow> error + (string \<times> pydict)" where
  "generate_pkce_context ext rnd =
     bind_err (token_urlsafe 90 rnd) (\<lambda>verifier.
       (let digest = sha256 ext (encode_utf8 verifier) in
        bind_err (decode_utf8 (butlast (urlsafe_b64encode digest))) (\<lambda>challenge.
          Inr (verifier,
               [(''code_challenge_method'', PStr ''S256''),
                (''code_challenge'', PStr challenge)]))))"

section \<open>URL parsing (the \<open>urllib.parse\<close> module)\<close>

text \<open>Python's \<open>s.split(c)\<close>, \<open>s.partition(c)\<close> and \<open>s.split(c, 1)\<close> for a one-character separator.\<close>

fun split_on :: "char \<Rightarrow> string \<Rightarrow> string list" where
  "split_on c [] = [[]]"
| "split_on c (x # xs) =
     (if x = c then [] # split_on c xs
      else (case split_on c xs of
              [] \<Rightarrow> [[x]]
            | w # ws \<Rightarrow> (x # w) # ws))"

definition partition_on :: "char \<Rightarrow> string \<Rightarrow> string \<times> bool \<times> string" where
  "partition_on c s =
     (takeWhile (\<lambda>x. x \<noteq> c) s, c \<in> set s, drop 1 (dropWhile (\<lambda>x. x \<noteq> c) s))"

definition ascii_alpha :: "char \<Rightarrow> bool" where
  "ascii_alpha c = (in_range 65 90 c \<or> in_range 97 122 c)"

definition scheme_char :: "char \<Rightarrow> bool" where
  "scheme_char c =
     (ascii_alpha c \<or> in_range 48 57 c \<or> c = CHR ''+'' \<or> c = CHR ''-'' \<or> c = CHR ''.'')"

definition ascii_lower :: "char \<Rightarrow> char" where
  "ascii_lower c = (if in_range 65 90 c then char_of (byte c + 32) else c)"

record split_result =
  scheme :: string
  netloc :: string
  path :: string
  query :: string
  fragment :: string

text \<open>
  \<open>_splitnetloc(url, 2)\<close>: the authority runs from position 2 to the first of
  \<open>/\<close>, \<open>?\<close> and \<open>#\<close>.
\<close>

definition splitnetloc :: "string \<Rightarrow> string \<times> string" where
  "splitnetloc url =
     (let is_delim = (\<lambda>c. c = CHR ''/'' \<or> c = CHR ''?'' \<or> c = CHR ''#'');
          rest = drop 2 url
      in (takeWhile (\<lambda>c. \<not> is_delim c) rest, dropWhile (\<lambda>c. \<not> is_delim c) rest))"

text \<open>
  \<open>urlsplit(url)\<close> as in CPython 3.11: leading control characters and spaces are
  stripped, tabs and line breaks are removed, then the scheme, the authority, the
  fragment and the query are split off in this order. An authority with an unmatched
  square bracket raises \<open>ValueError\<close>; so does one whose bracketed host or whose NFKC
  normal form the library rejects.
\<close>

definition urlsplit :: "externals \<Rightarrow> string \<Rightarrow> error + split_result" where
  "urlsplit ext url0 =
     (let url1 = dropWhile (\<lambda>c. byte c \<le> 32) url0;
          url2 = filter (\<lambda>c. c \<noteq> CHR 0x09 \<and> c \<noteq> CHR 0x0D \<and> c \<noteq> CHR 0x0A) url1;
          i = length (takeWhile (\<lambda>c. c \<noteq> CHR '':'') url2);
          has_scheme = (CHR '':'' \<in> set url2 \<and> i > 0 \<and> ascii_alpha (hd url2)
                        \<and> list_all scheme_char (take i url2));
          scheme = (if has_scheme then map ascii_lower (take i url2) else []);
          url3 = (if has_scheme then drop (i + 1) url2 else url2);
          has_netloc = (take 2 url3 = ''//'');
          netloc = (if has_netloc then fst (splitnetloc url3) else []);
          url4 = (if has_netloc then snd (splitnetloc url3) else url3);
          opening = (CHR ''['' \<in> set netloc);
          closing = (CHR '']'' \<in> set netloc);
          (url5, has_hash, fragment) = partition_on (CHR ''#'') url4;
          (url6, has_q, query) = partition_on (CHR ''?'') url5
      in if has_netloc \<and> ((opening \<and> \<not> closing) \<or> (closing \<and> \<not> opening))
           then Inl (ValueError ''Invalid IPv6 URL'')
         else if has_netloc \<and> opening \<and> closing
                 \<and> \<not> bracketed_host_ok ext
                       (fst (partition_on (CHR '']'')
                          (snd (snd (partition_on (CHR ''['') netloc)))))
           then Inl (ValueError ''Invalid bracketed host'')
         else if netloc \<noteq> [] \<and> \<not> list_all (\<lambda>c. byte c < 128) netloc
                 \<and> \<not> nfkc_netloc_ok ext netloc
           then Inl (ValueError ''netloc contains invalid characters under NFKC normalization'')
         else Inr \<lparr>scheme = scheme, netloc = netloc, path = url6, query = query,
                   fragment = fragment\<rparr>)"

text \<open>
  \<open>urlparse\<close> splits the parameters off the path of what \<open>urlsplit\<close> returns and
  leaves the query as it is.
\<close>

definition urlparse_query :: "externals \<Rightarrow> string \<Rightarrow> error + string" where
  "urlparse_query ext url = bind_err (urlsplit ext url) (\<lambda>r. Inr (query r))"

definition hexdig :: "char \<Rightarrow> nat option" where
  "hexdig c =
     (if in_range 48 57 c then Some (byte c - 48)
      else if in_range 65 70 c then Some (byte c - 55)
      else if in_range 97 102 c then Some (byte c - 87)
      else None)"

text \<open>\<open>unquote_to_bytes\<close>: every \<open>%XX\<close> with two hexadecimal digits becomes one byte.\<close>

definition unquote_item :: "string \<Rightarrow> bytes" where
  "unquote_item item =
     (case item of
        a # b # rest \<Rightarrow>
          (case (hexdig a, hexdig b) of
             (Some h, Some l) \<Rightarrow> char_of (h * 16 + l) # rest
           | _ \<Rightarrow> CHR ''%'' # item)
      | _ \<Rightarrow> CHR ''%'' # item)"

definition unquote_to_bytes :: "string \<Rightarrow> bytes" where
  "unquote_to_bytes s =
     (case split_on (CHR ''%'') s of
        [] \<Rightarrow> []
      | first # items \<Rightarrow> first @ concat (map unquote_item items))"

text \<open>
  \<open>bytes.decode('utf-8', 'replace')\<close>: a well-formed sequence is kept; otherwise the
  longest prefix of a sequence that could still be completed (at least one byte) is
  replaced by U+FFFD, whose encoding is EF BF BD.
\<close>

definition utf8_need :: "char \<Rightarrow> nat \<times> nat \<times> nat" where
  "utf8_need b =
     (if in_range 194 223 b then (1, 128, 191)
      else if byte b = 224 then (2, 160, 191)
      else if byte b = 237 then (2, 128, 159)
      else if in_range 225 239 b then (2, 128, 191)
      else if byte b = 240 then (3, 144, 191)
      else if in_range 241 243 b then (3, 128, 191)
      else if byte b = 244 then (3, 128, 143)
      else (0, 0, 0))"

fun utf8_matching :: "nat \<Rightarrow> nat \<Rightarrow> nat \<Rightarrow> bytes \<Rightarrow> nat" where
  "utf8_matching 0 lo hi bs = 0"
| "utf8_matching (Suc n) lo hi [] = 0"
| "utf8_matching (Suc n) lo hi (c # cs) =
     (if in_range lo hi c then Suc (utf8_matching n 128 191 cs) else 0)"

definition utf8_head :: "char \<Rightarrow> bytes \<Rightarrow> string \<times> nat" where
  "utf8_head b bs =
     (if byte b < 128 then ([b], 0)
      else
        (case utf8_need b of
           (need, lo, hi) \<Rightarrow>
             (let m = utf8_matching need lo hi bs in
              if 0 < need \<and> m = need then (b # take m bs, m)
              else ([CHR 0xEF, CHR 0xBF, CHR 0xBD], m))))"

function decode_replace :: "bytes \<Rightarrow> string" where
  "decode_replace [] = []"
| "decode_replace (b # bs) =
     (case utf8_head b bs of (out, m) \<Rightarrow> out @ decode_replace (drop m bs))"
  by pat_completeness auto
termination
  by (relation "measure length") auto

text \<open>
  \<open>unquote\<close>: a string without \<open>%\<close> is returned as it is; otherwise every maximal
  run of ASCII characters is unquoted to bytes and decoded, and the other characters
  are kept.
\<close>

fun unquote_runs :: "string \<Rightarrow> string \<Rightarrow> string" where
  "unquote_runs run [] = decode_replace (unquote_to_bytes run)"
| "unquote_runs run (c # cs) =
     (if byte c < 128 then unquote_runs (run @ [c]) cs
      else decode_replace (unquote_to_bytes run) @ c # unquote_runs [] cs)"

definition unquote :: "string \<Rightarrow> string" where
  "unquote s = (if CHR ''%'' \<notin> set s then s else unquote_runs [] s)"

definition unquote_plus :: "string \<Rightarrow> string" where
  "unquote_plus s = unquote (map (\<lambda>c. if c = CHR ''+'' then CHR '' '' else c) s)"

text \<open>
  \<open>parse_qsl(qs)\<close> with its defaults: fields are separated by \<open>&\<close>; a field with an
  empty value, or with no \<open>=\<close>, is dropped.
\<close>

definition parse_field :: "string \<Rightarrow> (string \<times> string) list" where
  "parse_field name_value =
     (if name_value = [] then []
      else (case partition_on (CHR ''='') name_value of
              (name, has_eq, v) \<Rightarrow>
                if v \<noteq> [] then [(unquote_plus name, unquote_plus v)] else []))"

definition parse_qsl :: "string \<Rightarrow> (string \<times> string) list" where
  "parse_qsl qs = (if qs = [] then [] else concat (map parse_field (split_on (CHR ''&'') qs)))"

text \<open>\<open>parse_qs\<close> collects the values of each name in a dictionary.\<close>

fun parse_qs_collect ::
  "(string \<times> string) list \<Rightarrow> (string \<times> string list) list \<Rightarrow> (string \<times> string list) list" where
  "parse_qs_collect [] parsed_result = parsed_result"
| "parse_qs_collect ((name, v) # pairs) parsed_result =
     parse_qs_collect pairs
       (case map_of parsed_result name of
          Some vs \<Rightarrow> AList.update name (vs @ [v]) parsed_result
        | None \<Rightarrow> AList.update name [v] parsed_result)"

definition parse_qs :: "string \<Rightarrow> (string \<times> string list) list" where
  "parse_qs qs = parse_qs_collect (parse_qsl qs) []"

section \<open>Validating an authorization URL\<close>

definition validate_authurl :: "externals \<Rightarrow> string \<Rightarrow> error + bool" where
  "validate_authurl ext url =
     bind_err (urlparse_query ext url) (\<lambda>querystring.
       (let qvars = parse_qs querystring in Inr (map_of qvars ''code'' \<noteq> None)))"


section \<open>Names for the values a save draws and writes\<close>

text \<open>
  The random key, nonce and padding seed that \<open>_encrypt\<close> draws, in this order, the
  key-stream cipher, and the document \<open>save_session\<close> serialises.
\<close>

definition session_key :: "entropy \<Rightarrow> bytes" where
  "session_key rnd = fst (urandom 32 rnd)"

definition session_nonce :: "entropy \<Rightarrow> bytes" where
  "session_nonce rnd = fst (urandom 16 (snd (urandom 32 rnd)))"

definition oaep_seed :: "entropy \<Rightarrow> bytes" where
  "oaep_seed rnd = fst (urandom 32 (snd (urandom 16 (snd (urandom 32 rnd)))))"

definition keystream_xor :: "externals \<Rightarrow> bytes \<Rightarrow> bytes \<Rightarrow> bytes \<Rightarrow> bytes" where
  "keystream_xor ext key nonce data =
     map (\<lambda>(i, b). xor_byte b (aes_keystream ext key nonce i)) (enumerate 0 data)"

definition session_payload :: "oauth2_client \<Rightarrow> pyval" where
  "session_payload self =
     PDict [(''client'', PDict (client self)),
            (''registration'', PDict (registration self)),
            (''tokendata'', (case token self of None \<Rightarrow> PNone | Some t \<Rightarrow> PDict t))]"

definition session_document :: "externals \<Rightarrow> entropy \<Rightarrow> oauth2_client \<Rightarrow> bytes \<Rightarrow> pydict" where
  "session_document ext rnd self wrapped =
     AList.update ''cryptoparams''
       (PDict [(''algo'', PStr ''AES''), (''mode'', PStr ''CTR''),
               (''key'', PStr (urlsafe_b64encode wrapped)),
               (''nonce'', PStr (urlsafe_b64encode (session_nonce rnd)))])
       (AList.update ''data''
          (PStr (urlsafe_b64encode
             (keystream_xor ext (session_key rnd) (session_nonce rnd)
                (encode_dict ext (session_payload self)))))
          (saved_session self))"

text \<open>Closed examples: a client, an environment and toy collaborators.\<close>

definition example_externals :: externals where
  "example_externals =
     \<lparr>rsa_generate = (\<lambda>_. (3233, 2753)),
      rsa_public_key = (\<lambda>_. (3233, 17)),
      rsa_private_bytes = (\<lambda>_ _. ''PRIVATE''),
      rsa_public_bytes = (\<lambda>_. ''PUBLIC''),
      rsa_oaep_encrypt = (\<lambda>_ _ m. Inr (rev m)),
      rsa_oaep_decrypt = (\<lambda>_ c. Inr (rev c)),
      aes_keystream = (\<lambda>key nonce i. key ! (i mod 32)),
      sha256 = (\<lambda>m. replicate 32 (CHR ''h'')),
      json_dumps = (\<lambda>_. ''{}''),
      json_dumps_sorted_indent4 = (\<lambda>_. ''{}''),
      json_loads = (\<lambda>_. Inr (PDict [])),
      bracketed_host_ok = (\<lambda>_. True),
      nfkc_netloc_ok = (\<lambda>_. True)\<rparr>"

definition example_client :: oauth2_client where
  "example_client =
     \<lparr>registration = [(''token_endpoint'', PStr ''https://login.example/token'')],
      client = [(''client_id'', PStr ''id'')],
      session_file_path = None,
      public_key = Some (3233, 17),
      saved_session = [(''private_key'', PStr ''PRIVATE''), (''public_key'', PStr ''PUBLIC'')],
      token = None,
      authurl = None,
      debug = False,
      verbose = False\<rparr>"

definition example_world :: world where
  "example_world =
     \<lparr>files = Map.empty, create_mode = 420, notifications = 0, stderr = [],
      stderr_isatty = True\<rparr>"

definition example_entropy :: entropy where
  "example_entropy = (\<lambda>i. char_of i)"

definition urlsafe_alphabet :: string where
  "urlsafe_alphabet = ''ABCDEFGHIJKLMNOPQRSTUVWXYZabcdefghijklmnopqrstuvwxyz0123456789-_''"


section \<open>The race for the authorization URL\<close>

text \<open>
  The redirect listener handles every request in a thread of its own
  (\<open>_RedirectURIHandler.do_GET\<close>) while the main thread runs
  \<open>_wait_for_authurl_on_stdin\<close>. All of them share \<open>context.authurl\<close> and the lock
  \<open>context.authurl_lock\<close>. The model interleaves their steps: a thread is a program
  counter, a step runs one thread up to its next access to the shared state or to the
  lock, and taking the lock is a step that is possible only when the lock is free.
  The lock holds its owner: 0 is the main thread, \<open>Suc i\<close> the handler of request \<open>i\<close>.
\<close>

datatype response = AlreadyProvided | RedirectCompleted | InvalidRequest

text \<open>
  A handler thread: about to validate its URL; waiting for the lock; holding the lock
  and about to test \<open>authurl\<close>; holding it and about to assign; about to leave the
  \<open>with\<close> block; finished; ended by an exception.
\<close>

datatype hpc = H_validate | H_acquire | H_test | H_assign | H_release | H_done | H_raised error

record handler =
  hpc :: hpc
  hpath :: string
  wrote :: "response list"

text \<open>
  The main thread: in \<open>select\<close>; waiting for the lock with the result of \<open>select\<close>;
  holding the lock and about to test \<open>not self.authurl and readers\<close>; about to read a
  line and validate it; about to assign the line read; about to test the \<open>elif\<close>; about
  to test \<open>if self.authurl: break\<close>; returned with a URL in place; returned after
  \<open>KeyboardInterrupt\<close> inside the \<open>try\<close>; ended by an exception.
\<close>

datatype spc =
    S_select
  | S_acquire bool
  | S_test bool
  | S_readline
  | S_assign string
  | S_elif
  | S_break
  | S_returned
  | S_interrupted
  | S_raised error

text \<open>
  \<open>stores\<close> is the history of the assignments to \<open>authurl\<close>, each with the thread that
  made it; the program does not read it.
\<close>

record race =
  ctx :: oauth2_client
  authurl_lock :: "nat option"
  stdin_pc :: spc
  stdin_lines :: "string list"
  stdin_eof :: bool
  stdout :: "string list"
  handlers :: "handler list"
  stores :: "(nat \<times> string) list"

datatype event =
    Request string
  | Typed string
  | CloseStdin
  | CtrlC
  | StdinStep
  | HandlerStep nat

definition authurl_prompt :: string where
  "authurl_prompt = ''Please enter the full callback URL: ''"

definition no_authcode_message :: string where
  "no_authcode_message = ''Error: No authcode provided.''"

definition canceled_message :: string where
  "canceled_message = ''<canceled>'' @ [CHR 0x0A] @ ''Response provided by browser session.''"

definition set_authurl :: "string \<Rightarrow> race \<Rightarrow> race" where
  "set_authurl url s = s\<lparr>ctx := (ctx s)\<lparr>authurl := Some url\<rparr>\<rparr>"

definition stdin_step :: "externals \<Rightarrow> race \<Rightarrow> race" where
  "stdin_step ext s =
     (case stdin_pc s of
        S_select \<Rightarrow> s\<lparr>stdin_pc := S_acquire (stdin_lines s \<noteq> [] \<or> stdin_eof s)\<rparr>
      | S_acquire readers \<Rightarrow>
          (if authurl_lock s = None
           then s\<lparr>authurl_lock := Some 0, stdin_pc := S_test readers\<rparr>
           else s)
      | S_test readers \<Rightarrow>
          (if \<not> truthy (authurl (ctx s)) \<and> readers then s\<lparr>stdin_pc := S_readline\<rparr>
           else s\<lparr>stdin_pc := S_elif\<rparr>)
      | S_readline \<Rightarrow>
          (if stdin_lines s = [] \<and> \<not> stdin_eof s then s
           else
             (let url = (case stdin_lines s of [] \<Rightarrow> [] | l # ls \<Rightarrow> l);
                  s1 = s\<lparr>stdin_lines := drop 1 (stdin_lines s)\<rparr>
              in case validate_authurl ext url of
                   Inl e \<Rightarrow> s1\<lparr>authurl_lock := None, stdin_pc := S_raised e\<rparr>
                 | Inr True \<Rightarrow> s1\<lparr>stdin_pc := S_assign url\<rparr>
                 | Inr False \<Rightarrow>
                     s1\<lparr>stdout := stdout s1 @ [no_authcode_message, authurl_prompt],
                        authurl_lock := None, stdin_pc := S_select\<rparr>))
      | S_assign url \<Rightarrow>
          (set_authurl url s)\<lparr>stores := stores s @ [(0, url)], stdin_pc := S_break\<rparr>
      | S_elif \<Rightarrow>
          (if truthy (authurl (ctx s))
           then s\<lparr>stdout := stdout s @ [canceled_message], stdin_pc := S_break\<rparr>
           else s\<lparr>stdin_pc := S_break\<rparr>)
      | S_break \<Rightarrow>
          (if truthy (authurl (ctx s))
           then s\<lparr>authurl_lock := None, stdin_pc := S_returned\<rparr>
           else s\<lparr>authurl_lock := None, stdin_pc := S_select\<rparr>)
      | S_returned \<Rightarrow> s
      | S_interrupted \<Rightarrow> s
      | S_raised e \<Rightarrow> s)"

text \<open>
  \<open>KeyboardInterrupt\<close> in the main thread: inside the \<open>try\<close> it is caught and the loop
  is left; elsewhere it ends the function. Either way a lock that is held is released.
\<close>

definition interrupt :: "race \<Rightarrow> race" where
  "interrupt s =
     (case stdin_pc s of
        S_select \<Rightarrow> s\<lparr>stdin_pc := S_raised KeyboardInterruptError\<rparr>
      | S_acquire readers \<Rightarrow> s\<lparr>stdin_pc := S_raised KeyboardInterruptError\<rparr>
      | S_test readers \<Rightarrow>
          s\<lparr>authurl_lock := None, stdin_pc := S_raised KeyboardInterruptError\<rparr>
      | S_readline \<Rightarrow> s\<lparr>authurl_lock := None, stdin_pc := S_interrupted\<rparr>
      | S_assign url \<Rightarrow> s\<lparr>authurl_lock := None, stdin_pc := S_interrupted\<rparr>
      | S_elif \<Rightarrow> s\<lparr>authurl_lock := None, stdin_pc := S_raised KeyboardInterruptError\<rparr>
      | S_break \<Rightarrow> s\<lparr>authurl_lock := None, stdin_pc := S_raised KeyboardInterruptError\<rparr>
      | S_returned \<Rightarrow> s
      | S_interrupted \<Rightarrow> s
      | S_raised e \<Rightarrow> s)"

definition set_handler :: "nat \<Rightarrow> handler \<Rightarrow> race \<Rightarrow> race" where
  "set_handler i h s = s\<lparr>handlers := (handlers s)[i := h]\<rparr>"

definition handler_step :: "externals \<Rightarrow> nat \<Rightarrow> race \<Rightarrow> race" where
  "handler_step ext i s =
     (if i < length (handlers s) then
        (let h = handlers s ! i in
         case hpc h of
           H_validate \<Rightarrow>
             (case validate_authurl ext (hpath h) of
                Inl e \<Rightarrow> set_handler i (h\<lparr>hpc := H_raised e\<rparr>) s
              | Inr True \<Rightarrow> set_handler i (h\<lparr>hpc := H_acquire\<rparr>) s
              | Inr False \<Rightarrow>
                  set_handler i (h\<lparr>hpc := H_done, wrote := wrote h @ [InvalidRequest]\<rparr>) s)
         | H_acquire \<Rightarrow>
             (if authurl_lock s = None
              then (set_handler i (h\<lparr>hpc := H_test\<rparr>) s)\<lparr>authurl_lock := Some (Suc i)\<rparr>
              else s)
         | H_test \<Rightarrow>
             (if truthy (authurl (ctx s))
              then set_handler i (h\<lparr>hpc := H_release, wrote := wrote h @ [AlreadyProvided]\<rparr>) s
              else set_handler i (h\<lparr>hpc := H_assign\<rparr>) s)
         | H_assign \<Rightarrow>
             (set_authurl (hpath h)
                (set_handler i (h\<lparr>hpc := H_release, wrote := wrote h @ [RedirectCompleted]\<rparr>) s))
             \<lparr>stores := stores s @ [(Suc i, hpath h)]\<rparr>
         | H_release \<Rightarrow> (set_handler i (h\<lparr>hpc := H_done\<rparr>) s)\<lparr>authurl_lock := None\<rparr>
         | H_done \<Rightarrow> s
         | H_raised e \<Rightarrow> s)
      else s)"

definition step :: "externals \<Rightarrow> race \<Rightarrow> event \<Rightarrow> race" where
  "step ext s ev =
     (case ev of
        Request p \<Rightarrow>
          s\<lparr>handlers := handlers s @ [\<lparr>hpc = H_validate, hpath = ''http://localhost'' @ p,
                                         wrote = []\<rparr>]\<rparr>
      | Typed l \<Rightarrow> s\<lparr>stdin_lines := stdin_lines s @ [l]\<rparr>
      | CloseStdin \<Rightarrow> s\<lparr>stdin_eof := True\<rparr>
      | CtrlC \<Rightarrow> interrupt s
      | StdinStep \<Rightarrow> stdin_step ext s
      | HandlerStep i \<Rightarrow> handler_step ext i s)"

definition run :: "externals \<Rightarrow> race \<Rightarrow> event list \<Rightarrow> race" where
  "run ext s evs = foldl (step ext) s evs"

text \<open>A new authorization attempt: the prompt is printed, nothing else has happened.\<close>

definition new_attempt :: "oauth2_client \<Rightarrow> race" where
  "new_attempt self =
     \<lparr>ctx = self\<lparr>authurl := None\<rparr>, authurl_lock = None, stdin_pc = S_select,
      stdin_lines = [], stdin_eof = False, stdout = [authurl_prompt], handlers = [],
      stores = []\<rparr>"

definition stdin_critical :: "spc \<Rightarrow> bool" where
  "stdin_critical pc =
     (case pc of
        S_test readers \<Rightarrow> True | S_readline \<Rightarrow> True | S_assign url \<Rightarrow> True
      | S_elif \<Rightarrow> True | S_break \<Rightarrow> True | _ \<Rightarrow> False)"

definition handler_critical :: "hpc \<Rightarrow> bool" where
  "handler_critical pc = (pc = H_test \<or> pc = H_assign \<or> pc = H_release)"


section \<open>Properties of the base64 functions\<close>

lemma byte_less_256: "byte c < 256"
  unfolding byte_def by (cases c) simp

lemma char_of_byte: "char_of (byte c) = c"
  by (simp add: byte_def)

lemma alphabet_length: "length b64_alphabet = 64"
  by (simp add: b64_alphabet_def)

lemma alphabet_distinct: "distinct b64_alphabet"
  by (simp add: b64_alphabet_def)

lemma alphabet_ascii: "c \<in> set b64_alphabet \<Longrightarrow> byte c < 128"
  by (auto simp: b64_alphabet_def byte_def)

lemma alphabet_no_pad: "CHR ''='' \<notin> set b64_alphabet"
  by (simp add: b64_alphabet_def)

lemma alphabet_no_urlsafe: "CHR ''-'' \<notin> set b64_alphabet" "CHR ''_'' \<notin> set b64_alphabet"
  by (simp_all add: b64_alphabet_def)

lemma table_b2a_in: "i < 64 \<Longrightarrow> table_b2a i \<in> set b64_alphabet"
  by (simp add: table_b2a_def alphabet_length)

lemma table_b2a_not_pad: "i < 64 \<Longrightarrow> table_b2a i \<noteq> CHR ''=''"
  using table_b2a_in alphabet_no_pad by metis

lemma index_of_nth: "distinct xs \<Longrightarrow> i < length xs \<Longrightarrow> index_of (xs ! i) xs = Some i"
proof (induction xs arbitrary: i)
  case Nil
  then show ?case by simp
next
  case (Cons x xs)
  then show ?case by (cases i) auto
qed

lemma table_a2b_b2a: "i < 64 \<Longrightarrow> table_a2b (table_b2a i) = Some i"
  by (simp add: table_a2b_def table_b2a_def index_of_nth alphabet_distinct alphabet_length)

lemma sextet_bounds:
  "byte a div 4 < 64"
  "(byte a mod 4) * 16 + byte b div 16 < 64"
  "(byte b mod 16) * 4 + byte c div 64 < 64"
  "byte c mod 64 < 64"
  "(byte a mod 4) * 16 < 64"
  "(byte b mod 16) * 4 < 64"
  using byte_less_256[of a] byte_less_256[of b] byte_less_256[of c] by simp_all

lemma decode_step1:
  "char_of ((byte a div 4 * 4 + ((byte a mod 4) * 16 + byte b div 16) div 16) mod 256) = a"
proof -
  have "byte b div 16 < 16" using byte_less_256[of b] by simp
  then have "((byte a mod 4) * 16 + byte b div 16) div 16 = byte a mod 4" by simp
  then have "byte a div 4 * 4 + ((byte a mod 4) * 16 + byte b div 16) div 16 = byte a" by simp
  then show ?thesis using byte_less_256[of a] by (simp add: char_of_byte)
qed

lemma decode_step2:
  "char_of ((((byte a mod 4) * 16 + byte b div 16) mod 16 * 16
             + ((byte b mod 16) * 4 + byte c div 64) div 4) mod 256) = b"
proof -
  have c: "byte c div 64 < 4" using byte_less_256[of c] by simp
  have "((byte a mod 4) * 16 + byte b div 16) mod 16 = byte b div 16"
    using byte_less_256[of b] by simp
  moreover have "((byte b mod 16) * 4 + byte c div 64) div 4 = byte b mod 16"
    using c by simp
  ultimately have "((byte a mod 4) * 16 + byte b div 16) mod 16 * 16
             + ((byte b mod 16) * 4 + byte c div 64) div 4 = byte b" by simp
  then show ?thesis using byte_less_256[of b] by (simp add: char_of_byte)
qed

lemma decode_step3:
  "char_of ((((byte b mod 16) * 4 + byte c div 64) mod 4 * 64 + byte c mod 64) mod 256) = c"
proof -
  have "((byte b mod 16) * 4 + byte c div 64) mod 4 = byte c div 64"
    using byte_less_256[of c] by simp
  then have "((byte b mod 16) * 4 + byte c div 64) mod 4 * 64 + byte c mod 64 = byte c" by simp
  then show ?thesis using byte_less_256[of c] by (simp add: char_of_byte)
qed

lemma decode_step1_last:
  "char_of ((byte a div 4 * 4 + ((byte a mod 4) * 16) div 16) mod 256) = a"
proof -
  have "byte a div 4 * 4 + ((byte a mod 4) * 16) div 16 = byte a" by simp
  then show ?thesis using byte_less_256[of a] by (simp add: char_of_byte)
qed

lemma decode_step2_last:
  "char_of ((((byte a mod 4) * 16 + byte b div 16) mod 16 * 16
             + ((byte b mod 16) * 4) div 4) mod 256) = b"
proof -
  have "((byte a mod 4) * 16 + byte b div 16) mod 16 = byte b div 16"
    using byte_less_256[of b] by simp
  then have "((byte a mod 4) * 16 + byte b div 16) mod 16 * 16
             + ((byte b mod 16) * 4) div 4 = byte b" by simp
  then show ?thesis using byte_less_256[of b] by (simp add: char_of_byte)
qed

lemma a2b_quad:
  assumes "s1 < 64" "s2 < 64" "s3 < 64" "s4 < 64"
  shows "a2b_loop (table_b2a s1 # table_b2a s2 # table_b2a s3 # table_b2a s4 # rest) 0 l p out =
         a2b_loop rest 0 0 0
           (out @ [char_of ((s1 * 4 + s2 div 16) mod 256),
                   char_of ((s2 mod 16 * 16 + s3 div 4) mod 256),
                   char_of ((s3 mod 4 * 64 + s4) mod 256)])"
  using assms by (simp add: table_a2b_b2a table_b2a_not_pad)

lemma a2b_last2:
  assumes "s1 < 64" "s2 < 64" "s3 < 64"
  shows "a2b_loop [table_b2a s1, table_b2a s2, table_b2a s3, CHR ''=''] 0 l p out =
         Inr (out @ [char_of ((s1 * 4 + s2 div 16) mod 256),
                     char_of ((s2 mod 16 * 16 + s3 div 4) mod 256)])"
  using assms by (simp add: table_a2b_b2a table_b2a_not_pad)

lemma a2b_last1:
  assumes "s1 < 64" "s2 < 64"
  shows "a2b_loop [table_b2a s1, table_b2a s2, CHR ''='', CHR ''=''] 0 l p out =
         Inr (out @ [char_of ((s1 * 4 + s2 div 16) mod 256)])"
  using assms by (simp add: table_a2b_b2a table_b2a_not_pad)

lemma a2b_loop_b2a_base64:
  "a2b_loop (b2a_base64 bs) 0 l p out = Inr (out @ bs)"
proof (induction bs arbitrary: l p out rule: b2a_base64.induct)
  case (1 a b c rest)
  have "a2b_loop (b2a_base64 (a # b # c # rest)) 0 l p out =
        a2b_loop (b2a_base64 rest) 0 0 0 (out @ [a, b, c])"
    by (simp only: b2a_base64.simps
        a2b_quad[OF sextet_bounds(1) sextet_bounds(2) sextet_bounds(3) sextet_bounds(4)]
        decode_step1 decode_step2 decode_step3)
  then show ?case by (simp add: 1)
next
  case (2 a b)
  show ?case
    by (simp only: b2a_base64.simps
        a2b_last2[OF sextet_bounds(1) sextet_bounds(2) sextet_bounds(6)]
        decode_step1 decode_step2_last)
next
  case (3 a)
  show ?case
    by (simp only: b2a_base64.simps a2b_last1[OF sextet_bounds(1) sextet_bounds(5)]
        decode_step1_last)
next
  case 4
  show ?case by simp
qed

lemma b2a_base64_chars: "c \<in> set (b2a_base64 bs) \<Longrightarrow> c \<in> set b64_alphabet \<or> c = CHR ''=''"
  by (induction bs rule: b2a_base64.induct) (auto simp: table_b2a_in sextet_bounds)

lemma translate_back:
  "\<forall>c\<in>set s. c \<noteq> CHR ''-'' \<and> c \<noteq> CHR ''_'' \<Longrightarrow>
   translate (CHR ''-'') (CHR ''+'') (CHR ''_'') (CHR ''/'')
     (translate (CHR ''+'') (CHR ''-'') (CHR ''/'') (CHR ''_'') s) = s"
  by (induction s) (auto simp: translate_def)

lemma urlsafe_b64_roundtrip: "urlsafe_b64decode (urlsafe_b64encode bs) = Inr bs"
proof -
  have "\<forall>c\<in>set (b2a_base64 bs). c \<noteq> CHR ''-'' \<and> c \<noteq> CHR ''_''"
    using b2a_base64_chars alphabet_no_urlsafe by fastforce
  then show ?thesis
    by (simp add: urlsafe_b64decode_def urlsafe_b64encode_def translate_back a2b_base64_def
        a2b_loop_b2a_base64)
qed


lemma ascii_valid_utf8: "list_all (\<lambda>c. byte c < 128) bs \<Longrightarrow> valid_utf8 bs"
  by (induction bs) auto

lemma urlsafe_b64encode_ascii: "list_all (\<lambda>c. byte c < 128) (urlsafe_b64encode bs)"
proof -
  have "\<And>c. c \<in> set (b2a_base64 bs) \<Longrightarrow> byte c < 128"
    using b2a_base64_chars alphabet_ascii by (fastforce simp: byte_def)
  then show ?thesis
    by (auto simp: urlsafe_b64encode_def translate_def list_all_iff byte_def)
qed

lemma b64encode_str_ok: "b64encode_str data = Inr (urlsafe_b64encode data)"
  by (simp add: b64encode_str_def b64encode_def to_bytes_def bind_err_def decode_utf8_def
      ascii_valid_utf8 urlsafe_b64encode_ascii)



lemma aes_ctr_cipher_ok:
  "length key = 32 \<Longrightarrow> length nonce = 16 \<Longrightarrow>
   aes_ctr_cipher ext key nonce = Inr (keystream_xor ext key nonce)"
  by (auto simp: aes_ctr_cipher_def keystream_xor_def)

lemma encrypt_unfold:
  "encrypt ext rnd self data =
     (case public_key self of
        None \<Rightarrow> Inl (RuntimeError ''No public key available'')
      | Some pub \<Rightarrow>
          (case rsa_oaep_encrypt ext pub (oaep_seed rnd) (session_key rnd) of
             Inl e \<Rightarrow> Inl e
           | Inr wrapped \<Rightarrow>
               Inr (keystream_xor ext (session_key rnd) (session_nonce rnd) data,
                    [(''algo'', PStr ''AES''), (''mode'', PStr ''CTR''),
                     (''key'', PStr (urlsafe_b64encode wrapped)),
                     (''nonce'', PStr (urlsafe_b64encode (session_nonce rnd)))])))"
proof -
  have c: "aes_ctr_cipher ext (fst (urandom 32 rnd)) (fst (urandom 16 (snd (urandom 32 rnd))))
           = Inr (keystream_xor ext (fst (urandom 32 rnd)) (fst (urandom 16 (snd (urandom 32 rnd)))))"
    by (rule aes_ctr_cipher_ok) (simp_all add: urandom_def)
  show ?thesis
    by (simp add: encrypt_def bind_err_def b64encode_str_ok c
        session_key_def session_nonce_def oaep_seed_def split_beta
        split: option.splits sum.splits)
qed

section \<open>Properties of the file system and of saving\<close>

lemma file_entry_eq: "(f::file_entry)\<lparr>mode := m, content := c\<rparr> = \<lparr>mode = m, content = c\<rparr>"
  by (cases f) simp

lemma delete_both:
  "AList.delete ''cryptoparams'' (AList.delete ''data''
     (AList.update ''cryptoparams'' c (AList.update ''data'' d al)))
   = AList.delete ''cryptoparams'' (AList.delete ''data'' al)"
proof -
  have "AList.delete ''data'' (AList.update ''cryptoparams'' c (AList.update ''data'' d al))
        = AList.update ''cryptoparams'' c (AList.delete ''data'' al)"
    by (simp add: delete_update delete_update_same)
  then show ?thesis by (simp add: delete_update_same)
qed

lemma write_and_rename_str:
  "write_and_rename (Inl (PStr s)) p w =
     (Returned (), fs_rename (p @ ''.new'') p
        (fs_set_content (p @ ''.new'') s
           (fs_chmod (p @ ''.new'') owner_only (fs_open_wb (p @ ''.new'') w))))"
  by (simp add: write_and_rename_def write_and_rename_trace_def to_bytes_def encode_utf8_def Let_def)

lemma save_session_unfold:
  "save_session ext rnd path0 self w =
     (if \<not> ((path0 = None \<and> truthy (session_file_path self))
             \<or> (session_file_path self = None \<and> truthy path0))
      then (Raised (ValueError ''No path specified and no default available.''), self, w)
      else
        (let p = (if path0 = None then the (session_file_path self) else the path0);
             self1 = self\<lparr>session_file_path := Some p\<rparr>
         in case public_key self of
              None \<Rightarrow> (Raised (RuntimeError ''No public key available''), self1, w)
            | Some pub \<Rightarrow>
                (case rsa_oaep_encrypt ext pub (oaep_seed rnd) (session_key rnd) of
                   Inl e \<Rightarrow> (Raised e, self1, w)
                 | Inr wrapped \<Rightarrow>
                     (Returned (),
                      self1\<lparr>saved_session :=
                               AList.delete ''cryptoparams''
                                 (AList.delete ''data'' (saved_session self))\<rparr>,
                      snd (write_and_rename
                             (Inl (PStr (json_dumps_sorted_indent4 ext
                                           (PDict (session_document ext rnd self wrapped)))))
                             p w)))))"
  by (auto simp: save_session_def Let_def encrypt_unfold b64encode_str_ok truthy_def
      session_document_def session_payload_def delete_both write_and_rename_str
      split: option.splits sum.splits)

lemma tmp_differs: "filename @ ''.new'' \<noteq> filename"
  by simp

lemma trace_states:
  assumes "to_bytes data = Inr b"
  shows "write_and_rename_trace data filename w =
     Inr ([fs_open_wb (filename @ ''.new'') w,
           fs_chmod (filename @ ''.new'') owner_only (fs_open_wb (filename @ ''.new'') w)]
          @ map (\<lambda>k. fs_set_content (filename @ ''.new'') (take k b)
                        (fs_chmod (filename @ ''.new'') owner_only (fs_open_wb (filename @ ''.new'') w)))
                [1..<Suc (length b)]
          @ [fs_rename (filename @ ''.new'') filename
               (fs_set_content (filename @ ''.new'') b
                  (fs_chmod (filename @ ''.new'') owner_only (fs_open_wb (filename @ ''.new'') w)))])"
  using assms by (simp add: write_and_rename_trace_def Let_def)

lemma open_files:
  "files (fs_open_wb tmp w) p =
     (if p = tmp then Some (case files w tmp of None \<Rightarrow> \<lparr>mode = create_mode w, content = []\<rparr>
                              | Some f \<Rightarrow> f\<lparr>content := []\<rparr>)
      else files w p)"
  by (simp add: fs_open_wb_def)

lemma chmod_open_files:
  "files (fs_chmod tmp m (fs_open_wb tmp w)) p =
     (if p = tmp then Some \<lparr>mode = m, content = []\<rparr> else files w p)"
  by (cases "files w tmp") (auto simp: fs_chmod_def fs_open_wb_def intro: file_entry.equality)

lemma write_files:
  "files (fs_set_content tmp c (fs_chmod tmp m (fs_open_wb tmp w))) p =
     (if p = tmp then Some \<lparr>mode = m, content = c\<rparr> else files w p)"
  using chmod_open_files[of tmp m w tmp]
  by (auto simp: fs_set_content_def chmod_open_files)

lemma rename_files:
  "tmp \<noteq> dst \<Longrightarrow>
   files (fs_rename tmp dst (fs_set_content tmp c (fs_chmod tmp m (fs_open_wb tmp w)))) p =
     (if p = dst then Some \<lparr>mode = m, content = c\<rparr>
      else if p = tmp then None else files w p)"
  using write_files[of tmp c m w tmp]
  by (auto simp: fs_rename_def write_files)

lemma write_files':
  "files (fs_set_content tmp c (fs_chmod tmp m (fs_open_wb tmp w))) p =
     (if p = tmp then Some \<lparr>mode = m, content = c\<rparr> else files w p)"
  by (cases "files w tmp") (auto simp: fs_set_content_def fs_chmod_def fs_open_wb_def)

lemma written_file:
  "files (snd (write_and_rename (Inl (PStr s)) p w)) p = Some \<lparr>mode = owner_only, content = s\<rparr>"
  using write_files'[of "p @ ''.new''" s owner_only w "p @ ''.new''"]
  by (simp add: write_and_rename_str fs_rename_def)

lemma written_notifications:
  "notifications (snd (write_and_rename (Inl (PStr s)) p w)) = notifications w"
  by (simp add: write_and_rename_str fs_rename_def fs_set_content_def fs_chmod_def fs_open_wb_def
      split: option.splits)

lemma session_document_fields:
  "map_of (session_document ext rnd self wrapped) ''data'' \<noteq> None"
  "map_of (session_document ext rnd self wrapped) ''cryptoparams'' \<noteq> None"
  "k \<noteq> ''data'' \<Longrightarrow> k \<noteq> ''cryptoparams'' \<Longrightarrow>
   map_of (session_document ext rnd self wrapped) k = map_of (saved_session self) k"
  by (simp_all add: session_document_def update_conv')

lemma save_session_keeps:
  assumes "save_session ext rnd path0 self w = (r, self', w')"
  shows "token self' = token self \<and> notifications w' = notifications w"
  using assms
  by (auto simp: save_session_unfold Let_def written_notifications
      split: if_splits option.splits sum.splits)

section \<open>Padding, length and alphabet of the encoding; the key stream\<close>

lemma mod3_step: "Suc (Suc (Suc n)) mod 3 = n mod 3"
  by presburger

lemma b2a_no_pad: "length bs mod 3 = 0 \<Longrightarrow> CHR ''='' \<notin> set (b2a_base64 bs)"
proof (induction bs rule: b2a_base64.induct)
  case (1 a b c rest)
  then have "length rest mod 3 = 0" by (simp add: mod3_step)
  with 1 have "CHR ''='' \<notin> set (b2a_base64 rest)" by blast
  then show ?case
    using table_b2a_not_pad[OF sextet_bounds(1), of a]
      table_b2a_not_pad[OF sextet_bounds(2), of a b]
      table_b2a_not_pad[OF sextet_bounds(3), of b c]
      table_b2a_not_pad[OF sextet_bounds(4), of c]
    by auto
qed simp_all

lemma b2a_one_pad:
  "length bs mod 3 = 2 \<Longrightarrow>
   \<exists>body. b2a_base64 bs = body @ [CHR ''=''] \<and> CHR ''='' \<notin> set body"
proof (induction bs rule: b2a_base64.induct)
  case (1 a b c rest)
  then have "length rest mod 3 = 2" by (simp add: mod3_step)
  with 1 obtain body where
    body: "b2a_base64 rest = body @ [CHR ''='']" "CHR ''='' \<notin> set body" by blast
  let ?q = "[table_b2a (byte a div 4), table_b2a ((byte a mod 4) * 16 + byte b div 16),
             table_b2a ((byte b mod 16) * 4 + byte c div 64), table_b2a (byte c mod 64)]"
  have "b2a_base64 (a # b # c # rest) = (?q @ body) @ [CHR ''='']"
    using body by simp
  moreover have "CHR ''='' \<notin> set (?q @ body)"
    using body
      table_b2a_not_pad[OF sextet_bounds(1), of a]
      table_b2a_not_pad[OF sextet_bounds(2), of a b]
      table_b2a_not_pad[OF sextet_bounds(3), of b c]
      table_b2a_not_pad[OF sextet_bounds(4), of c]
    by auto
  ultimately show ?case by blast
next
  case (2 a b)
  have "b2a_base64 [a, b] =
      [table_b2a (byte a div 4), table_b2a ((byte a mod 4) * 16 + byte b div 16),
       table_b2a ((byte b mod 16) * 4)] @ [CHR ''='']"
    by simp
  moreover have "CHR ''='' \<notin> set [table_b2a (byte a div 4),
       table_b2a ((byte a mod 4) * 16 + byte b div 16), table_b2a ((byte b mod 16) * 4)]"
    using table_b2a_not_pad[OF sextet_bounds(1), of a]
      table_b2a_not_pad[OF sextet_bounds(2), of a b]
      table_b2a_not_pad[OF sextet_bounds(6), of b]
    by auto
  ultimately show ?case by blast
qed simp_all

lemma b2a_length: "length (b2a_base64 bs) = 4 * ((length bs + 2) div 3)"
proof (induction bs rule: b2a_base64.induct)
  case (1 a b c rest)
  have "(length (a # b # c # rest) + 2) div 3 = Suc ((length rest + 2) div 3)"
    by simp
  then show ?case using 1 by simp
qed simp_all

lemma urlsafe_length: "length (urlsafe_b64encode bs) = 4 * ((length bs + 2) div 3)"
  by (simp add: urlsafe_b64encode_def translate_def b2a_length)

lemma translate_alphabet:
  "c \<in> set b64_alphabet \<Longrightarrow>
   (if c = CHR ''+'' then CHR ''-'' else if c = CHR ''/'' then CHR ''_'' else c)
     \<in> set urlsafe_alphabet"
  by (auto simp: b64_alphabet_def urlsafe_alphabet_def)

lemma urlsafe_chars:
  "c \<in> set (urlsafe_b64encode bs) \<Longrightarrow> c \<in> set urlsafe_alphabet \<or> c = CHR ''=''"
proof -
  assume "c \<in> set (urlsafe_b64encode bs)"
  then obtain d where d: "d \<in> set (b2a_base64 bs)"
    and c: "c = (if d = CHR ''+'' then CHR ''-'' else if d = CHR ''/'' then CHR ''_'' else d)"
    unfolding urlsafe_b64encode_def translate_def set_map by blast
  from b2a_base64_chars[OF d] show ?thesis
  proof
    assume "d \<in> set b64_alphabet"
    from translate_alphabet[OF this] c show ?thesis by simp
  next
    assume "d = CHR ''=''"
    with c show ?thesis by simp
  qed
qed

lemma translate_pad: "CHR ''='' \<in> set (urlsafe_b64encode bs) \<longleftrightarrow> CHR ''='' \<in> set (b2a_base64 bs)"
  by (auto simp: urlsafe_b64encode_def translate_def)

lemma rstrip_absent: "c \<notin> set s \<Longrightarrow> rstrip c s = s"
proof -
  assume "c \<notin> set s"
  then have "c \<notin> set (rev s)" by simp
  then have "dropWhile (\<lambda>x. x = c) (rev s) = rev s"
    by (cases "rev s") (auto simp del: set_rev)
  then show ?thesis by (simp add: rstrip_def)
qed

lemma rstrip_one: "c \<notin> set body \<Longrightarrow> rstrip c (body @ [c]) = body"
  using rstrip_absent[of c body] by (simp add: rstrip_def)

lemma urlsafe_one_pad:
  assumes "length bs mod 3 = 2"
  shows "butlast (urlsafe_b64encode bs) = rstrip (CHR ''='') (urlsafe_b64encode bs)
    \<and> CHR ''='' \<notin> set (butlast (urlsafe_b64encode bs))"
proof -
  from b2a_one_pad[OF assms] obtain body where
    body: "b2a_base64 bs = body @ [CHR ''='']" "CHR ''='' \<notin> set body" by blast
  let ?t = "translate (CHR ''+'') (CHR ''-'') (CHR ''/'') (CHR ''_'')"
  have enc: "urlsafe_b64encode bs = ?t body @ [CHR ''='']"
    by (simp add: urlsafe_b64encode_def body translate_def)
  have np: "CHR ''='' \<notin> set (?t body)"
    using body(2) by (auto simp: translate_def)
  show ?thesis
    by (simp add: enc rstrip_one[OF np] np)
qed

lemma urandom_fst: "fst (urandom n rnd) = map rnd [0..<n]"
  by (simp add: urandom_def)






section \<open>Properties of the password loop\<close>
















section \<open>Writing a file and renaming it over the target\<close>

text \<open>
  C7. For every payload that is a \<open>bytes\<close> object or a \<open>str\<close>, \<open>_write_and_rename\<close>
  goes through a sequence of file-system states in which: the temporary file
  (the target name plus \<open>.new\<close>) exists from the first state on; the target path holds
  either what it held before the call or the complete payload with mode 0600, never a
  part of the payload; whenever the temporary file holds any payload byte its mode is
  already 0600 (384); no other path changes; and in the last state the target is the
  complete payload with mode 0600 and the temporary file is gone.
\<close>

theorem write_and_rename_atomic:
  assumes "to_bytes data = Inr b"
  shows "\<exists>tr. write_and_rename_trace data filename w = Inr tr
    \<and> write_and_rename data filename w = (Returned (), last tr)
    \<and> files (hd tr) (filename @ ''.new'') \<noteq> None
    \<and> (\<forall>s\<in>set tr. files s filename = files w filename
                   \<or> files s filename = Some \<lparr>mode = owner_only, content = b\<rparr>)
    \<and> (\<forall>s\<in>set tr. \<forall>f. files s (filename @ ''.new'') = Some f \<longrightarrow> content f \<noteq> []
                   \<longrightarrow> mode f = owner_only)
    \<and> (\<forall>s\<in>set tr. \<forall>p. p \<noteq> filename \<and> p \<noteq> filename @ ''.new'' \<longrightarrow> files s p = files w p)
    \<and> files (last tr) filename = Some \<lparr>mode = owner_only, content = b\<rparr>
    \<and> files (last tr) (filename @ ''.new'') = None
    \<and> owner_only = 384"
proof -
  let ?tmp = "filename @ ''.new''"
  let ?w1 = "fs_open_wb ?tmp w"
  let ?w2 = "fs_chmod ?tmp owner_only ?w1"
  let ?final = "fs_rename ?tmp filename (fs_set_content ?tmp b ?w2)"
  let ?tr = "[?w1, ?w2] @ map (\<lambda>k. fs_set_content ?tmp (take k b) ?w2) [1..<Suc (length b)] @ [?final]"
  have tr: "write_and_rename_trace data filename w = Inr ?tr"
    using trace_states[OF assms] by simp
  have fin: "\<And>p. files ?final p =
      (if p = filename then Some \<lparr>mode = owner_only, content = b\<rparr>
       else if p = ?tmp then None else files w p)"
    by (rule rename_files) simp
  have each: "\<And>s. s \<in> set ?tr \<Longrightarrow>
      (files s filename = files w filename
         \<or> files s filename = Some \<lparr>mode = owner_only, content = b\<rparr>)
      \<and> (\<forall>f. files s ?tmp = Some f \<longrightarrow> content f \<noteq> [] \<longrightarrow> mode f = owner_only)
      \<and> (\<forall>p. p \<noteq> filename \<and> p \<noteq> ?tmp \<longrightarrow> files s p = files w p)"
  proof -
    fix s assume "s \<in> set ?tr"
    then consider "s = ?w1" | "s = ?w2"
      | k where "s = fs_set_content ?tmp (take k b) ?w2" | "s = ?final"
      by auto
    then show "(files s filename = files w filename
         \<or> files s filename = Some \<lparr>mode = owner_only, content = b\<rparr>)
      \<and> (\<forall>f. files s ?tmp = Some f \<longrightarrow> content f \<noteq> [] \<longrightarrow> mode f = owner_only)
      \<and> (\<forall>p. p \<noteq> filename \<and> p \<noteq> ?tmp \<longrightarrow> files s p = files w p)"
    proof cases
      case 1
      then show ?thesis by (auto simp: open_files split: option.splits)
    next
      case 2
      then show ?thesis by (auto simp: chmod_open_files)
    next
      case 3
      then show ?thesis by (auto simp: write_files)
    next
      case 4
      then show ?thesis by (simp add: fin)
    qed
  qed
  have "write_and_rename data filename w = (Returned (), last ?tr)"
    by (simp only: write_and_rename_def tr sum.case)
  moreover have "last ?tr = ?final" by simp
  moreover have "hd ?tr = ?w1" by simp
  moreover have "files ?w1 ?tmp \<noteq> None" by (simp add: open_files)
  moreover have "owner_only = 384" by (simp add: owner_only_def)
  ultimately show ?thesis using tr each fin tmp_differs[of filename]
    by (intro exI[of _ ?tr]) (simp del: set_append list.set append.simps)
qed

theorem write_and_rename_atomic_witness:
  "to_bytes (Inr ''secret'') = Inr ''secret''
   \<and> fst (write_and_rename (Inr ''secret'') ''token'' example_world) = Returned ()
   \<and> files (snd (write_and_rename (Inr ''secret'') ''token'' example_world)) ''token''
       = Some \<lparr>mode = 384, content = ''secret''\<rparr>
   \<and> files (snd (write_and_rename (Inr ''secret'') ''token'' example_world)) ''token.new'' = None"
proof -
  have h: "to_bytes (Inr ''secret'') = Inr ''secret''"
    by (simp add: to_bytes_def)
  from write_and_rename_atomic[OF h, of "''token''" example_world] show ?thesis
    using h by auto
qed

section \<open>What a save leaves in memory\<close>

text \<open>
  C9. After every successful \<open>save_session\<close> call the in-memory \<open>saved_session\<close> is the
  one before the call with the \<open>data\<close> and \<open>cryptoparams\<close> entries removed: it has neither
  field, and every other field (\<open>private_key\<close>, \<open>public_key\<close>) is as before. Both fields
  are in the document the call serialised and wrote, with mode 0600, to the session
  file, beside the unchanged other fields. The registration, the client, the token and
  the public key of the object are unchanged.
\<close>

theorem save_session_frame:
  assumes "save_session ext rnd path0 self w = (Returned (), self', w')"
  shows "saved_session self'
           = AList.delete ''cryptoparams'' (AList.delete ''data'' (saved_session self))
    \<and> map_of (saved_session self') ''data'' = None
    \<and> map_of (saved_session self') ''cryptoparams'' = None
    \<and> (\<forall>k. k \<noteq> ''data'' \<and> k \<noteq> ''cryptoparams''
           \<longrightarrow> map_of (saved_session self') k = map_of (saved_session self) k)
    \<and> (\<exists>p doc. session_file_path self' = Some p
           \<and> files w' p = Some \<lparr>mode = owner_only,
                                 content = encode_utf8 (json_dumps_sorted_indent4 ext (PDict doc))\<rparr>
           \<and> map_of doc ''data'' \<noteq> None \<and> map_of doc ''cryptoparams'' \<noteq> None
           \<and> (\<forall>k. k \<noteq> ''data'' \<and> k \<noteq> ''cryptoparams''
                  \<longrightarrow> map_of doc k = map_of (saved_session self) k))
    \<and> registration self' = registration self \<and> client self' = client self
    \<and> token self' = token self \<and> public_key self' = public_key self"
proof -
  from assms obtain p wrapped where
    self': "self' = self\<lparr>session_file_path := Some p,
                         saved_session := AList.delete ''cryptoparams''
                                            (AList.delete ''data'' (saved_session self))\<rparr>"
    and w': "w' = snd (write_and_rename
                         (Inl (PStr (json_dumps_sorted_indent4 ext
                                       (PDict (session_document ext rnd self wrapped)))))
                         p w)"
    by (auto simp: save_session_unfold Let_def split: if_splits option.splits sum.splits)
  have doc: "files w' p = Some \<lparr>mode = owner_only,
        content = encode_utf8 (json_dumps_sorted_indent4 ext
                                 (PDict (session_document ext rnd self wrapped)))\<rparr>"
    by (simp add: w' written_file encode_utf8_def)
  have "\<exists>p doc. session_file_path self' = Some p
           \<and> files w' p = Some \<lparr>mode = owner_only,
                                 content = encode_utf8 (json_dumps_sorted_indent4 ext (PDict doc))\<rparr>
           \<and> map_of doc ''data'' \<noteq> None \<and> map_of doc ''cryptoparams'' \<noteq> None
           \<and> (\<forall>k. k \<noteq> ''data'' \<and> k \<noteq> ''cryptoparams''
                  \<longrightarrow> map_of doc k = map_of (saved_session self) k)"
    using doc session_document_fields self'
    by (intro exI[of _ p] exI[of _ "session_document ext rnd self wrapped"]) simp
  then show ?thesis
    by (simp add: self' delete_conv')
qed

lemma example_save_returns:
  "fst (save_session example_externals example_entropy (Some ''session.json'') example_client
          example_world) = Returned ()"
  by (simp add: save_session_unfold example_client_def example_externals_def truthy_def Let_def)

theorem save_session_frame_witness:
  "fst (save_session example_externals example_entropy (Some ''session.json'') example_client
          example_world) = Returned ()
   \<and> saved_session (fst (snd (save_session example_externals example_entropy
                                  (Some ''session.json'') example_client example_world)))
       = [(''private_key'', PStr ''PRIVATE''), (''public_key'', PStr ''PUBLIC'')]"
proof -
  obtain self' w' where
    run: "save_session example_externals example_entropy (Some ''session.json'') example_client
            example_world = (Returned (), self', w')"
    using example_save_returns by (metis prod.collapse)
  from save_session_frame[OF run] have
    "saved_session self'
       = AList.delete ''cryptoparams'' (AList.delete ''data'' (saved_session example_client))"
    by blast
  then have "saved_session self' = [(''private_key'', PStr ''PRIVATE''), (''public_key'', PStr ''PUBLIC'')]"
    by (simp add: example_client_def AList.delete_eq)
  then show ?thesis using run by simp
qed

section \<open>Refreshing the token\<close>

text \<open>
  C10. When the registration names a token endpoint and the external refresh returns a
  new token, then however the following \<open>save_session\<close> ends, \<open>refresh_token\<close> ends the same
  way with the new token installed as the current token and one more notification
  delivered on the condition. In particular, with no session file path known the call
  raises the \<open>ValueError\<close> of \<open>save_session\<close> and the object is the one before the call
  with the new token.
\<close>

theorem refresh_token_no_rollback:
  assumes "dict_get (registration self) ''token_endpoint'' = Inr endpoint"
    and "refresh_token ext rnd (Inr new_token) self w = (r, self', w')"
  shows "token self' = Some new_token
    \<and> notifications w' = notifications w + 1
    \<and> (session_file_path self = None \<longrightarrow>
          r = Raised (ValueError ''No path specified and no default available.'')
          \<and> self' = self\<lparr>token := Some new_token\<rparr>)
    \<and> (\<exists>w3. (r, self', w') = save_session ext rnd None (self\<lparr>token := Some new_token\<rparr>) w3
             \<and> notifications w3 = notifications w + 1)"
proof -
  let ?w2 = "log self ''Token refreshed'' (log self ''Starting token refresh'' w)"
  let ?w3 = "?w2\<lparr>notifications := notifications ?w2 + 1\<rparr>"
  have n: "notifications ?w3 = notifications w + 1"
    by (simp add: log_def)
  have run: "save_session ext rnd None (self\<lparr>token := Some new_token\<rparr>) ?w3 = (r, self', w')"
    using assms by (simp add: refresh_token_def Let_def)
  from save_session_keeps[OF run] n have
    "token self' = Some new_token" "notifications w' = notifications w + 1" by simp_all
  moreover have "session_file_path self = None \<longrightarrow>
          r = Raised (ValueError ''No path specified and no default available.'')
          \<and> self' = self\<lparr>token := Some new_token\<rparr>"
    using run by (auto simp: save_session_unfold truthy_def)
  ultimately show ?thesis using run n by metis
qed

theorem refresh_token_no_rollback_witness:
  "dict_get (registration example_client) ''token_endpoint''
     = Inr (PStr ''https://login.example/token'')
   \<and> refresh_token example_externals example_entropy (Inr [(''access_token'', PStr ''new'')])
        example_client example_world
      = (Raised (ValueError ''No path specified and no default available.''),
         example_client\<lparr>token := Some [(''access_token'', PStr ''new'')]\<rparr>,
         example_world\<lparr>notifications := 1\<rparr>)"
proof -
  have h: "dict_get (registration example_client) ''token_endpoint''
             = Inr (PStr ''https://login.example/token'')"
    by (simp add: dict_get_def example_client_def)
  obtain r self' w' where
    run: "refresh_token example_externals example_entropy (Inr [(''access_token'', PStr ''new'')])
            example_client example_world = (r, self', w')"
    by (metis prod.collapse)
  have none: "session_file_path example_client = None"
    by (simp add: example_client_def)
  from refresh_token_no_rollback[OF h run] none have
    "r = Raised (ValueError ''No path specified and no default available.'')"
    "self' = example_client\<lparr>token := Some [(''access_token'', PStr ''new'')]\<rparr>"
    by blast+
  moreover have "w' = example_world\<lparr>notifications := 1\<rparr>"
    using run h none
    by (simp add: refresh_token_def save_session_unfold truthy_def log_def Let_def
        example_world_def example_client_def dict_get_def)
  ultimately show ?thesis using h run by simp
qed

section \<open>Which path a save uses\<close>

text \<open>
  C3, at the input where the code departs from it: called with an explicit path on an
  object that already has a session file path, \<open>save_session\<close> raises the \<open>ValueError\<close>
  whose message says that no path was specified and no default is available, and
  changes nothing, although a path is known both on the call and on the object.
\<close>

theorem save_session_both_paths_raise:
  "save_session ext rnd (Some p) (self\<lparr>session_file_path := Some q\<rparr>) w
     = (Raised (ValueError ''No path specified and no default available.''),
        self\<lparr>session_file_path := Some q\<rparr>, w)"
  by (simp add: save_session_unfold)

section \<open>Requests to the socket token server\<close>

text \<open>
  C4, as amended. For every \<open>GET\<close> request arriving when no token is set, or the token
  is empty or lacks an \<open>access_token\<close> field, the handler has already sent the status
  200 with the header \<open>Content-type: text/plain\<close> when it raises \<open>NoTokenError\<close>, and it
  writes no body. For every \<open>GET\<close> request arriving when the token has an \<open>access_token\<close>
  that is a string, the response is the status 200, the same header and a body that is
  exactly the access token.
\<close>

theorem token_do_GET_behaviour:
  "((token context = None \<or> token context = Some []
       \<or> (\<exists>tok. token context = Some tok \<and> map_of tok ''access_token'' = None))
      \<longrightarrow> token_do_GET context
            = (Raised (NoTokenError ''Cannot retreive access token''),
               [SendResponse 200, SendHeader ''Content-type'' ''text/plain'', EndHeaders]))
   \<and> ((\<exists>tok. token context = Some tok \<and> map_of tok ''access_token'' = Some (PStr s))
      \<longrightarrow> token_do_GET context
            = (Returned (),
               [SendResponse 200, SendHeader ''Content-type'' ''text/plain'', EndHeaders,
                WFile (encode_utf8 s)]))"
  by (auto simp: token_do_GET_def token_do_HEAD_def dict_get_def to_bytes_def Let_def)

theorem token_do_GET_behaviour_witness:
  "token example_client = None
   \<and> token_do_GET example_client
       = (Raised (NoTokenError ''Cannot retreive access token''),
          [SendResponse 200, SendHeader ''Content-type'' ''text/plain'', EndHeaders])
   \<and> token_do_GET (example_client\<lparr>token := Some [(''access_token'', PStr ''abc'')]\<rparr>)
       = (Returned (),
          [SendResponse 200, SendHeader ''Content-type'' ''text/plain'', EndHeaders,
           WFile ''abc''])"
  using token_do_GET_behaviour[of example_client "''abc''"]
    token_do_GET_behaviour[of "example_client\<lparr>token := Some [(''access_token'', PStr ''abc'')]\<rparr>" "''abc''"]
  by (simp add: example_client_def encode_utf8_def)

text \<open>
  C4 as stated has the request fail with an error status. With no token set the only
  status the connection receives is 200; no status of 400 or above is sent.
\<close>

theorem token_do_GET_no_error_status:
  "fst (token_do_GET example_client) = Raised (NoTokenError ''Cannot retreive access token'')
   \<and> snd (token_do_GET example_client)
       = [SendResponse 200, SendHeader ''Content-type'' ''text/plain'', EndHeaders]
   \<and> \<not> error_status_sent (snd (token_do_GET example_client))"
  by (simp add: token_do_GET_def token_do_HEAD_def example_client_def error_status_sent_def)

section \<open>The PKCE context\<close>

text \<open>
  C6. Whenever the SHA-256 of the library returns 32 bytes, every call of
  \<open>_generate_pkce_context\<close> returns a verifier and a challenge such that: the verifier is
  the base64url encoding of the 90 random bytes drawn, it decodes back to these 90
  bytes, it has 120 characters, all of them letters, digits, \<open>-\<close> or \<open>_\<close>; the challenge
  is the base64url encoding of the SHA-256 digest of the verifier with the padding
  removed, 43 characters of the same alphabet; and \<open>code_challenge_method\<close> is \<open>S256\<close>.
\<close>

theorem generate_pkce_context_ok:
  assumes "\<forall>m. length (sha256 ext m) = 32"
  shows "\<exists>verifier challenge.
      generate_pkce_context ext rnd
        = Inr (verifier,
               [(''code_challenge_method'', PStr ''S256''), (''code_challenge'', PStr challenge)])
    \<and> verifier = urlsafe_b64encode (map rnd [0..<90])
    \<and> urlsafe_b64decode verifier = Inr (map rnd [0..<90])
    \<and> length verifier = 120
    \<and> list_all (\<lambda>c. c \<in> set urlsafe_alphabet) verifier
    \<and> challenge = rstrip (CHR ''='') (urlsafe_b64encode (sha256 ext (encode_utf8 verifier)))
    \<and> CHR ''='' \<notin> set challenge
    \<and> length challenge = 43
    \<and> list_all (\<lambda>c. c \<in> set urlsafe_alphabet) challenge"
proof -
  let ?tok = "map rnd [0..<90]"
  let ?v = "urlsafe_b64encode ?tok"
  let ?d = "sha256 ext (encode_utf8 ?v)"
  let ?c = "butlast (urlsafe_b64encode ?d)"
  have nopad: "CHR ''='' \<notin> set ?v"
    using b2a_no_pad[of ?tok] by (simp add: translate_pad)
  have tok: "token_urlsafe 90 rnd = Inr ?v"
    by (simp add: token_urlsafe_def urandom_fst rstrip_absent[OF nopad] decode_utf8_def
        ascii_valid_utf8 urlsafe_b64encode_ascii)
  have dlen: "length ?d = 32" using assms by blast
  then have m: "length ?d mod 3 = 2" by simp
  note pad = conjunct1[OF urlsafe_one_pad[OF m]] conjunct2[OF urlsafe_one_pad[OF m]]
  have cascii: "list_all (\<lambda>c. byte c < 128) ?c"
    using urlsafe_b64encode_ascii[of ?d] by (auto simp: list_all_iff dest: in_set_butlastD)
  have run: "generate_pkce_context ext rnd
        = Inr (?v, [(''code_challenge_method'', PStr ''S256''), (''code_challenge'', PStr ?c)])"
    by (simp add: generate_pkce_context_def tok bind_err_def decode_utf8_def
        ascii_valid_utf8[OF cascii])
  have vchars: "list_all (\<lambda>c. c \<in> set urlsafe_alphabet) ?v"
    using urlsafe_chars[of _ ?tok] nopad by (auto simp: list_all_iff)
  have cchars: "list_all (\<lambda>c. c \<in> set urlsafe_alphabet) ?c"
    using urlsafe_chars[of _ ?d] pad(2) by (auto simp: list_all_iff dest: in_set_butlastD)
  have vlen: "length ?v = 120" by (simp add: urlsafe_length)
  have clen: "length ?c = 43" by (simp add: urlsafe_length dlen)
  show ?thesis
    using run urlsafe_b64_roundtrip[of ?tok] vlen vchars pad clen cchars
    by (intro exI[of _ ?v] exI[of _ ?c]) (simp only: simp_thms)
qed

theorem generate_pkce_context_ok_witness:
  "(\<forall>m. length (sha256 example_externals m) = 32)
   \<and> (\<exists>verifier challenge.
        generate_pkce_context example_externals example_entropy
          = Inr (verifier,
                 [(''code_challenge_method'', PStr ''S256''), (''code_challenge'', PStr challenge)])
        \<and> length verifier = 120 \<and> length challenge = 43)"
proof -
  have h: "\<forall>m. length (sha256 example_externals m) = 32"
    by (simp add: example_externals_def)
  from generate_pkce_context_ok[OF h, of example_entropy] show ?thesis
    using h by blast
qed

section \<open>The round trip of the session encryption\<close>



end
